theory Spec2Isabelle
  imports Main "HOL-Library.Sublist"
begin

section \<open>Path utilities (package path)\<close>

text \<open>
  Go's \<^verbatim>\<open>strings.Replace(s, old, new, 1)\<close>: the first (leftmost) occurrence of
  \<open>old\<close> in \<open>s\<close> is replaced by \<open>new\<close>; \<open>s\<close> is returned as it is when \<open>old\<close> does
  not occur. An empty \<open>old\<close> matches at the very beginning of \<open>s\<close>. Strings are
  byte sequences, as in Go.
\<close>

fun strings_Replace1 :: "string \<Rightarrow> string \<Rightarrow> string \<Rightarrow> string" where
  "strings_Replace1 [] old new = (if old = [] then new else [])"
| "strings_Replace1 (c # cs) old new =
     (if prefix old (c # cs) then new @ drop (length old) (c # cs)
      else c # strings_Replace1 cs old new)"

text \<open>
  \<^verbatim>\<open>func ExpandHome(s string, home string) string { return strings.Replace(s, "~", home, 1) }\<close>
  and
  \<^verbatim>\<open>func UnexpandHome(s string, home string) string { return strings.Replace(s, home, "~", 1) }\<close>
\<close>

definition ExpandHome :: "string \<Rightarrow> string \<Rightarrow> string" where
  "ExpandHome s home = strings_Replace1 s ''~'' home"

definition UnexpandHome :: "string \<Rightarrow> string \<Rightarrow> string" where
  "UnexpandHome s home = strings_Replace1 s home ''~''"

section \<open>Data model (package symlink)\<close>

text \<open>\<^verbatim>\<open>type Symlink struct { Target string; Link string }\<close>\<close>

record Symlink =
  Target :: string
  Link :: string

text \<open>
  Modelled from the spec: the Link Manager's \<open>Expand\<close> (the Link Manager's file is not
  part of the sources at hand). It applies \<open>ExpandHome\<close> of package path independently
  to \<open>Target\<close> and \<open>Link\<close>.
\<close>

definition Expand :: "string \<Rightarrow> Symlink \<Rightarrow> Symlink" where
  "Expand home s = \<lparr>Target = ExpandHome (Target s) home, Link = ExpandHome (Link s) home\<rparr>"

text \<open>
  Modelled from the spec: the Link Manager's \<open>Unexpand\<close>, the inverse direction. It
  applies \<open>UnexpandHome\<close> of package path independently to \<open>Target\<close> and \<open>Link\<close>.
\<close>

definition Unexpand :: "string \<Rightarrow> Symlink \<Rightarrow> Symlink" where
  "Unexpand home s = \<lparr>Target = UnexpandHome (Target s) home, Link = UnexpandHome (Link s) home\<rparr>"

text \<open>\<^verbatim>\<open>func (symlink Symlink) String() string\<close>: \<^verbatim>\<open>"%s -> %s"\<close> of \<open>Link\<close> and \<open>Target\<close>.\<close>

definition Symlink_String :: "Symlink \<Rightarrow> string" where
  "Symlink_String symlink = Link symlink @ '' -> '' @ Target symlink"

text \<open>\<^verbatim>\<open>type Config struct { Symlinks []Symlink }\<close>: the persisted set.\<close>

record Config =
  Symlinks :: "Symlink list"

text \<open>
  The fields of \<^verbatim>\<open>conf.Config\<close> that the symlink managers read. Its \<^verbatim>\<open>Fs\<close> field is
  the mutable filesystem, which is part of the state below.
\<close>

record conf_Config =
  UserHome :: string
  PunktHome :: string
  Dotfiles :: string
  WorkingDir :: string

section \<open>Errors, filesystem and persistence\<close>

text \<open>
  Go errors as values. \<open>ErrNoSuchFile\<close> is the sentinel \<^verbatim>\<open>file.ErrNoSuchFile\<close>;
  \<open>ErrOther\<close> is any other error of the filesystem or of the persistence layer;
  \<open>Errorf\<close> is \<^verbatim>\<open>errors.Errorf(msg)\<close> and \<open>Wrapf err msg\<close> is
  \<^verbatim>\<open>errors.Wrapf(err, msg)\<close>.
\<close>

datatype error =
    ErrNoSuchFile
  | ErrOther string
  | Errorf string
  | Wrapf error string

text \<open>
  The filesystem the Link Manager works on maps a path to what is there: a regular
  file, a directory, or a symbolic link with the path it points to.
\<close>

datatype node = File | Dir | SymlinkTo string

type_synonym filesystem = "string \<Rightarrow> node option"

text \<open>
  What the persistence layer finds at the path of a configuration file: nothing, a
  document it cannot decode, or a stored \<open>Config\<close>.
\<close>

datatype persisted = Absent | Garbled string | Holds Config

text \<open>
  The calls the Set Manager makes to its collaborators, recorded in the order they are
  made.
\<close>

datatype call =
    CallEnsure Symlink
  | CallRemove string string
  | CallReadToml string
  | CallSaveToml Config string

text \<open>
  The state all operations run on: the filesystem seen by the Link Manager, the
  configuration files seen by the persistence layer (kept apart from the former: a
  configuration file is never itself a managed link), whether saving fails and with
  what error, and the record of collaborator calls.
\<close>

record world =
  Fs :: filesystem
  toml :: "string \<Rightarrow> persisted"
  save_error :: "error option"
  calls :: "call list"

text \<open>
  Modelled from the spec: \<^verbatim>\<open>file.ReadToml\<close>, the reading half of the persistence
  collaborator (package file is not part of the sources at hand). Reading fails with the
  distinguished no-such-file condition when the file is absent and with another error
  when it cannot be decoded; the destination then stays the zero \<open>Config\<close>.
\<close>

definition ReadToml :: "string \<Rightarrow> world \<Rightarrow> (Config \<times> error option) \<times> world" where
  "ReadToml path w =
     (case toml w path of
        Absent \<Rightarrow> (\<lparr>Symlinks = []\<rparr>, Some ErrNoSuchFile)
      | Garbled msg \<Rightarrow> (\<lparr>Symlinks = []\<rparr>, Some (ErrOther msg))
      | Holds c \<Rightarrow> (c, None),
      w\<lparr>calls := calls w @ [CallReadToml path]\<rparr>)"

text \<open>
  Modelled from the spec: \<^verbatim>\<open>file.SaveToml\<close>, the writing half of the persistence
  collaborator. Saving either stores the value at the path or fails with the error of
  the state and leaves the file as it was.
\<close>

definition SaveToml :: "Config \<Rightarrow> string \<Rightarrow> world \<Rightarrow> error option \<times> world" where
  "SaveToml c path w =
     (case save_error w of
        Some e \<Rightarrow> (Some e, w\<lparr>calls := calls w @ [CallSaveToml c path]\<rparr>)
      | None \<Rightarrow> (None, w\<lparr>toml := (toml w)(path := Holds c),
                           calls := calls w @ [CallSaveToml c path]\<rparr>))"

text \<open>A path is absolute when it begins with the separator (Go's \<^verbatim>\<open>filepath.IsAbs\<close> on Unix).\<close>

definition isAbs :: "string \<Rightarrow> bool" where
  "isAbs p = (case p of [] \<Rightarrow> False | c # _ \<Rightarrow> c = CHR ''/'')"

text \<open>
  Modelled from the spec: \<^verbatim>\<open>path.AsAbsolute(fs, workingDir, file)\<close> (not part of the
  sources at hand) resolves a path to an absolute one relative to the working directory
  and fails when nothing exists there. A relative path is taken to be clean: it is put
  behind the working directory and a separator as it is.
\<close>

definition AsAbsolute :: "filesystem \<Rightarrow> string \<Rightarrow> string \<Rightarrow> error + string" where
  "AsAbsolute fs workingDir file =
     (let absPath = (if isAbs file then file else workingDir @ ''/'' @ file)
      in case fs absPath of
           None \<Rightarrow> Inl (ErrOther (''file does not exist: '' @ absPath))
         | Some _ \<Rightarrow> Inr absPath)"

section \<open>The Link Manager interface and the Set Manager\<close>

text \<open>
  \<^verbatim>\<open>LinkManager\<close> is an interface in the code (the tests put a mock behind it); its
  methods are the fields of a record. \<open>Ensure\<close> and \<open>Remove\<close> act on the filesystem.
\<close>

record LinkManager =
  lmNew :: "string \<Rightarrow> string \<Rightarrow> Symlink"
  lmRemove :: "string \<Rightarrow> string \<Rightarrow> filesystem \<Rightarrow> (error + Symlink) \<times> filesystem"
  lmEnsure :: "Symlink \<Rightarrow> filesystem \<Rightarrow> error option \<times> filesystem"
  lmExpand :: "Symlink \<Rightarrow> Symlink"
  lmUnexpand :: "Symlink \<Rightarrow> Symlink"

text \<open>\<^verbatim>\<open>type Manager struct { LinkManager LinkManager; configFile string; config conf.Config }\<close>\<close>

record Manager =
  LinkManager :: LinkManager
  configFile :: string
  config :: conf_Config

definition call_Ensure :: "Manager \<Rightarrow> Symlink \<Rightarrow> world \<Rightarrow> error option \<times> world" where
  "call_Ensure mgr symlink w =
     (let (err, fs') = lmEnsure (LinkManager mgr) symlink (Fs w)
      in (err, w\<lparr>Fs := fs', calls := calls w @ [CallEnsure symlink]\<rparr>))"

definition call_Remove :: "Manager \<Rightarrow> string \<Rightarrow> string \<Rightarrow> world \<Rightarrow> (error + Symlink) \<times> world" where
  "call_Remove mgr link target w =
     (let (r, fs') = lmRemove (LinkManager mgr) link target (Fs w)
      in (r, w\<lparr>Fs := fs', calls := calls w @ [CallRemove link target]\<rparr>))"

text \<open>\<open>readConfiguration\<close>: \<open>ReadToml\<close> of the manager's file; the rest of it is logging.\<close>

definition readConfiguration :: "Manager \<Rightarrow> world \<Rightarrow> (Config \<times> error option) \<times> world" where
  "readConfiguration mgr w = ReadToml (configFile mgr) w"

text \<open>
  The duplicate scan of \<open>addToConfiguration\<close>: the loop returns at the first stored record
  with the same \<open>Target\<close> and \<open>Link\<close>.
\<close>

fun already_stored :: "Symlink \<Rightarrow> Symlink list \<Rightarrow> bool" where
  "already_stored unexpanded [] = False"
| "already_stored unexpanded (existing # rest) =
     (if Target unexpanded = Target existing \<and> Link unexpanded = Link existing then True
      else already_stored unexpanded rest)"

definition addToConfiguration ::
    "Manager \<Rightarrow> Symlink \<Rightarrow> world \<Rightarrow> (Symlink option \<times> error option) \<times> world" where
  "addToConfiguration mgr new w =
     (let ((saved, err), w1) = readConfiguration mgr w
      in if err \<noteq> None \<and> err \<noteq> Some ErrNoSuchFile then ((None, err), w1)
         else
           let unexpanded = lmUnexpand (LinkManager mgr) new
           in if already_stored unexpanded (Symlinks saved) then ((Some unexpanded, None), w1)
              else
                let saved' = saved\<lparr>Symlinks := Symlinks saved @ [unexpanded]\<rparr>;
                    (err', w2) = SaveToml saved' (configFile mgr) w1
                in ((Some unexpanded, err'), w2))"

text \<open>
  \<open>Add\<close> returns the pair \<^verbatim>\<open>(*Symlink, error)\<close>; the symlink it returns after \<open>Ensure\<close>
  succeeded is the one built by \<open>New\<close>, together with whatever error
  \<open>addToConfiguration\<close> gave.
\<close>

definition Add ::
    "Manager \<Rightarrow> string \<Rightarrow> string \<Rightarrow> world \<Rightarrow> (Symlink option \<times> error option) \<times> world" where
  "Add mgr target newLocation w =
     (case AsAbsolute (Fs w) (WorkingDir (config mgr)) target of
        Inl err \<Rightarrow> ((None, Some err), w)
      | Inr absTarget \<Rightarrow>
          let symlink = lmNew (LinkManager mgr) newLocation absTarget;
              (err, w1) = call_Ensure mgr symlink w
          in case err of
               Some e \<Rightarrow>
                 ((None, Some (Wrapf e (''failed to ensure '' @ Symlink_String symlink @ '' exists''))), w1)
             | None \<Rightarrow>
                 let ((storedLink, err'), w2) = addToConfiguration mgr symlink w1
                 in ((Some symlink, err'), w2))"

text \<open>
  The lookup loop of \<open>Remove\<close>:
  \<^verbatim>\<open>for _, symlink := range config.Symlinks { if symlink.Link == link { matchingSymlink = &symlink } }\<close>.
  The loop runs to the end of the list. The repository is built with Go 1.9, where the
  range variable is one variable for the whole loop: the pointer taken at a match
  refers to that variable, which holds the last record of the list once the loop is
  over. The state of the loop is the value of the range variable and whether the
  pointer has been set.
\<close>

fun matching_loop :: "string \<Rightarrow> Symlink list \<Rightarrow> Symlink \<times> bool \<Rightarrow> Symlink \<times> bool" where
  "matching_loop link [] st = st"
| "matching_loop link (x # xs) (symlink, found) =
     matching_loop link xs (x, found \<or> Link x = link)"

definition matchingSymlink :: "string \<Rightarrow> Symlink list \<Rightarrow> Symlink option" where
  "matchingSymlink link symlinks =
     (let (symlink, found) = matching_loop link symlinks (\<lparr>Target = [], Link = []\<rparr>, False)
      in if found then Some symlink else None)"

text \<open>
  The index loop of \<open>removeFromConfiguration\<close>: the index of the last stored record
  with the same \<open>Target\<close> and \<open>Link\<close>, or the initial -1.
\<close>

fun index_loop :: "Symlink \<Rightarrow> Symlink list \<Rightarrow> int \<Rightarrow> int \<Rightarrow> int" where
  "index_loop unexpanded [] i index = index"
| "index_loop unexpanded (s # rest) i index =
     index_loop unexpanded rest (i + 1)
       (if Target unexpanded = Target s \<and> Link unexpanded = Link s then i else index)"

definition removeFromConfiguration ::
    "Manager \<Rightarrow> Symlink \<Rightarrow> world \<Rightarrow> (Symlink option \<times> error option) \<times> world" where
  "removeFromConfiguration mgr symlink w =
     (let ((cfg, err), w1) = ReadToml (configFile mgr) w
      in if err = Some ErrNoSuchFile then ((None, None), w1)
         else
           let unexpanded = lmUnexpand (LinkManager mgr) symlink;
               index = index_loop unexpanded (Symlinks cfg) 0 (- 1)
           in if index < 0 then ((Some unexpanded, None), w1)
              else
                let cfg' = cfg\<lparr>Symlinks := take (nat index) (Symlinks cfg) @
                                             drop (nat index + 1) (Symlinks cfg)\<rparr>;
                    (err', w2) = SaveToml cfg' (configFile mgr) w1
                in ((Some unexpanded, err'), w2))"

definition Remove :: "Manager \<Rightarrow> string \<Rightarrow> world \<Rightarrow> error option \<times> world" where
  "Remove mgr link w =
     (case AsAbsolute (Fs w) (WorkingDir (config mgr)) link of
        Inl err \<Rightarrow> (Some err, w)
      | Inr absLink \<Rightarrow>
          let ((cfg, err), w1) = readConfiguration mgr w;
              link' = UnexpandHome absLink (UserHome (config mgr))
          in case matchingSymlink link' (Symlinks cfg) of
               None \<Rightarrow>
                 (Some (Errorf (''unable to find link '' @ link' @ '' in configuration'')), w1)
             | Some matching \<Rightarrow>
                 let symlink = lmExpand (LinkManager mgr) matching;
                     (r, w2) = call_Remove mgr absLink (Target symlink) w1
                 in case r of
                      Inl e \<Rightarrow> (Some (Wrapf e (''failed to remove link '' @ link')), w2)
                    | Inr s \<Rightarrow>
                        let ((removedLink, err'), w3) = removeFromConfiguration mgr s w2
                        in (err', w3))"

text \<open>
  \<^verbatim>\<open>func (mgr Manager) Dump() (string, error) { return "", nil }\<close>: the method of the
  manager interface, which takes neither search roots nor a depth.
\<close>

definition Dump :: "Manager \<Rightarrow> world \<Rightarrow> (string \<times> error option) \<times> world" where
  "Dump mgr w = (([], None), w)"

section \<open>The survey of existing links\<close>

text \<open>
  Modelled from the spec: the walk of one search root by the Set Manager's
  \<open>Dump(searchRoots, maxDepth)\<close>, whose code is not part of the sources at hand
  (\<^verbatim>\<open>cmd/dump.go\<close> calls it as \<^verbatim>\<open>symlink.Dump(directories, depth, punktHome, dotfiles)\<close>).
  \<open>readDir\<close> is the directory listing of the filesystem: the names of the entries of a
  directory. The entries of the root itself are at the first level; a depth of zero
  finds nothing. An entry that is a symbolic link is reported with the path it points
  to and is not followed; a directory is entered while levels remain.
\<close>

fun walk :: "(string \<Rightarrow> string list) \<Rightarrow> filesystem \<Rightarrow> nat \<Rightarrow> string \<Rightarrow> (string \<times> string) list" where
  "walk readDir fs 0 dir = []"
| "walk readDir fs (Suc depth) dir =
     concat (map (\<lambda>name.
                    case fs (dir @ ''/'' @ name) of
                      Some (SymlinkTo t) \<Rightarrow> [(dir @ ''/'' @ name, t)]
                    | Some Dir \<Rightarrow> walk readDir fs depth (dir @ ''/'' @ name)
                    | _ \<Rightarrow> [])
                 (readDir dir))"

text \<open>
  Modelled from the spec: what it means that a symbolic link at \<open>link\<close>, pointing to
  \<open>t\<close>, lies within \<open>depth\<close> levels of the directory \<open>dir\<close>: it is an entry of \<open>dir\<close>,
  or it lies within one level less of a directory that is an entry of \<open>dir\<close>.
\<close>

inductive discovered ::
    "(string \<Rightarrow> string list) \<Rightarrow> filesystem \<Rightarrow> nat \<Rightarrow> string \<Rightarrow> string \<Rightarrow> string \<Rightarrow> bool"
  for readDir :: "string \<Rightarrow> string list" and fs :: filesystem where
  entry:
    "name \<in> set (readDir dir) \<Longrightarrow> fs (dir @ ''/'' @ name) = Some (SymlinkTo t) \<Longrightarrow>
     discovered readDir fs (Suc depth) dir (dir @ ''/'' @ name) t"
| below:
    "name \<in> set (readDir dir) \<Longrightarrow> fs (dir @ ''/'' @ name) = Some Dir \<Longrightarrow>
     discovered readDir fs depth (dir @ ''/'' @ name) link t \<Longrightarrow>
     discovered readDir fs (Suc depth) dir link t"

text \<open>
  Modelled from the spec: adding a record to the result of \<open>Dump\<close> if no record with
  equal \<open>Target\<close> and \<open>Link\<close> is in it yet.
\<close>

definition add_if_absent :: "Symlink list \<Rightarrow> Symlink \<Rightarrow> Symlink list" where
  "add_if_absent result s = (if already_stored s result then result else result @ [s])"

text \<open>
  Modelled from the spec: the Set Manager's \<open>Dump(searchRoots, maxDepth)\<close>. Each root
  is walked to the given depth; for each symbolic link found, the record is built by
  the Link Manager's \<open>New\<close> from the link's path and the path it points to (in the
  argument order of the call in \<open>Add\<close>), unexpanded, and added to the result if not yet
  there. The state is returned as it was.
\<close>

definition symlink_Dump ::
    "Manager \<Rightarrow> (string \<Rightarrow> string list) \<Rightarrow> string list \<Rightarrow> nat \<Rightarrow> world \<Rightarrow> Symlink list \<times> world" where
  "symlink_Dump mgr readDir searchRoots maxDepth w =
     (foldl add_if_absent []
        (map (\<lambda>(link, target).
                lmUnexpand (LinkManager mgr) (lmNew (LinkManager mgr) link target))
           (concat (map (walk readDir (Fs w) maxDepth) searchRoots))),
      w)"

section \<open>The Link Manager of the spec\<close>

text \<open>
  Modelled from the spec: the path of \<open>p\<close> relative to a root, used by the Link
  Manager's \<open>New\<close>. A path lies under a root when it is the root, a separator and a
  non-empty rest; that rest is its path relative to the root. Otherwise there is none.
\<close>

definition relativeTo :: "string \<Rightarrow> string \<Rightarrow> string option" where
  "relativeTo root p =
     (if prefix (root @ ''/'') p \<and> length (root @ ''/'') < length p
      then Some (drop (length (root @ ''/'')) p) else None)"

text \<open>
  Modelled from the spec: re-rooting a relative path under a root, used by the Link
  Manager's \<open>New\<close>. Without a relative path the result is the empty string.
\<close>

definition reroot :: "string \<Rightarrow> string option \<Rightarrow> string" where
  "reroot root rel = (case rel of None \<Rightarrow> [] | Some r \<Rightarrow> root @ ''/'' @ r)"

text \<open>
  Modelled from the spec: the Link Manager's \<open>New(target, link)\<close> (its file is not part
  of the sources at hand). With both paths given they are kept. With an empty link and a
  non-empty absolute target, the link is the target's path relative to the dotfiles root,
  re-rooted under the home directory; with an empty target and a non-empty absolute link,
  the target is the link's path relative to the home directory, re-rooted under the
  dotfiles root. A field that cannot be derived stays empty; there is no error.
\<close>

definition linkManager_New :: "conf_Config \<Rightarrow> string \<Rightarrow> string \<Rightarrow> Symlink" where
  "linkManager_New c target link =
     (if target \<noteq> [] \<and> link \<noteq> [] then \<lparr>Target = target, Link = link\<rparr>
      else if link = [] \<and> target \<noteq> [] \<and> isAbs target
        then \<lparr>Target = target, Link = reroot (UserHome c) (relativeTo (Dotfiles c) target)\<rparr>
      else if target = [] \<and> link \<noteq> [] \<and> isAbs link
        then \<lparr>Target = reroot (Dotfiles c) (relativeTo (UserHome c) link), Link = link\<rparr>
      else \<lparr>Target = target, Link = link\<rparr>)"

text \<open>
  Modelled from the spec: the parent directories of a path, outermost first, which the
  Link Manager's \<open>Ensure\<close> creates as needed: every proper prefix of the path that ends
  before a separator.
\<close>

fun ancestors :: "string \<Rightarrow> string \<Rightarrow> string list" where
  "ancestors seen [] = []"
| "ancestors seen (c # cs) =
     (if c = CHR ''/'' \<and> seen \<noteq> [] then [seen] else []) @ ancestors (seen @ [c]) cs"

text \<open>
  Modelled from the spec: \<^verbatim>\<open>MkdirAll\<close> of the filesystem abstraction, on the list of
  directories to make. A directory that exists is passed over, a missing one is made, and
  a regular file in the way is an error.
\<close>

fun MkdirAll :: "string list \<Rightarrow> filesystem \<Rightarrow> error option \<times> filesystem" where
  "MkdirAll [] fs = (None, fs)"
| "MkdirAll (d # ds) fs =
     (case fs d of
        None \<Rightarrow> MkdirAll ds (fs(d \<mapsto> Dir))
      | Some File \<Rightarrow> (Some (ErrOther (d @ '': not a directory'')), fs)
      | Some _ \<Rightarrow> MkdirAll ds fs)"

text \<open>
  Modelled from the spec: the Link Manager's \<open>Ensure\<close>, by the decision table of the
  spec. A link that already points to the target is left alone; a link to another path
  is replaced; a regular file or directory at the link path is refused; where nothing
  is at the link path, the missing parent directories are made and then the link.
\<close>

definition linkManager_Ensure :: "Symlink \<Rightarrow> filesystem \<Rightarrow> error option \<times> filesystem" where
  "linkManager_Ensure s fs =
     (case fs (Link s) of
        Some (SymlinkTo t) \<Rightarrow>
          if t = Target s then (None, fs) else (None, fs(Link s \<mapsto> SymlinkTo (Target s)))
      | Some _ \<Rightarrow> (Some (ErrOther (Link s @ '' already exists, refuse to overwrite'')), fs)
      | None \<Rightarrow>
          (case MkdirAll (ancestors [] (Link s)) fs of
             (Some e, fs') \<Rightarrow> (Some e, fs')
           | (None, fs') \<Rightarrow> (None, fs'(Link s \<mapsto> SymlinkTo (Target s)))))"

text \<open>
  Modelled from the spec: the Link Manager's \<open>Remove\<close>. It reads the symbolic link at
  the path, deletes that entry only and returns what it removed; it fails when nothing
  is there or when what is there is not a symbolic link.
\<close>

definition linkManager_Remove :: "string \<Rightarrow> filesystem \<Rightarrow> (error + Symlink) \<times> filesystem" where
  "linkManager_Remove link fs =
     (case fs link of
        None \<Rightarrow> (Inl (ErrOther (link @ '' does not exist'')), fs)
      | Some (SymlinkTo t) \<Rightarrow> (Inr \<lparr>Target = t, Link = link\<rparr>, fs(link := None))
      | Some _ \<Rightarrow> (Inl (ErrOther (link @ '' is not a symlink'')), fs))"

text \<open>
  Modelled from the spec: \<open>NewLinkManager\<close> (not part of the sources at hand) puts the
  Link Manager of the spec behind the interface, in the argument order of the calls in
  \<open>Add\<close> (\<open>New(newLocation, absTarget)\<close>) and \<open>Remove\<close> (\<open>Remove(absLink, target)\<close>, of
  which the Link Manager of the spec takes the link).
\<close>

definition NewLinkManager :: "conf_Config \<Rightarrow> LinkManager" where
  "NewLinkManager c =
     \<lparr>lmNew = (\<lambda>location target. linkManager_New c target location),
      lmRemove = (\<lambda>link target. linkManager_Remove link),
      lmEnsure = linkManager_Ensure,
      lmExpand = Expand (UserHome c),
      lmUnexpand = Unexpand (UserHome c)\<rparr>"

text \<open>
  \<^verbatim>\<open>func NewManager(c conf.Config, configFile string) *Manager\<close>, the constructor of the
  code.
\<close>

definition NewManager :: "conf_Config \<Rightarrow> string \<Rightarrow> Manager" where
  "NewManager c file = \<lparr>LinkManager = NewLinkManager c, configFile = file, config = c\<rparr>"

text \<open>
  The configuration of the test suites and of the scenarios of the spec: home \<open>/home\<close>,
  dotfiles root \<open>/home/.dotfiles\<close>, and the symlink manager's file under the
  configuration root.
\<close>

definition test_conf :: conf_Config where
  "test_conf = \<lparr>UserHome = ''/home'', PunktHome = ''/home/.config/punkt'',
                 Dotfiles = ''/home/.dotfiles'', WorkingDir = ''/home''\<rparr>"

definition test_mgr :: Manager where
  "test_mgr = NewManager test_conf ''/home/.config/punkt/symlinks.toml''"

definition test_world :: "filesystem \<Rightarrow> persisted \<Rightarrow> error option \<Rightarrow> world" where
  "test_world fs p e =
     \<lparr>Fs = fs,
      toml = (\<lambda>path. if path = ''/home/.config/punkt/symlinks.toml'' then p else Absent),
      save_error = e, calls = []\<rparr>"

text \<open>
  Three filesystems: the real file under the dotfiles root alone; the same with the
  symbolic link to it in the home directory; the same with a plain file where the link
  should be.
\<close>

definition fs_unlinked :: filesystem where
  "fs_unlinked = [''/home/.dotfiles/.bashrc'' \<mapsto> File]"

definition fs_linked :: filesystem where
  "fs_linked = [''/home/.dotfiles/.bashrc'' \<mapsto> File,
                ''/home/.bashrc'' \<mapsto> SymlinkTo ''/home/.dotfiles/.bashrc'']"

definition fs_clobbered :: filesystem where
  "fs_clobbered = [''/home/.dotfiles/.bashrc'' \<mapsto> File, ''/home/.bashrc'' \<mapsto> File]"

text \<open>
  A home directory with the dotfiles directory, a symbolic link at the first level and
  one at the second, and its directory listing.
\<close>

definition fs_tree :: filesystem where
  "fs_tree = [''/home/.dotfiles'' \<mapsto> Dir,
              ''/home/.dotfiles/.bashrc'' \<mapsto> File,
              ''/home/.bashrc'' \<mapsto> SymlinkTo ''/home/.dotfiles/.bashrc'',
              ''/home/.config'' \<mapsto> Dir,
              ''/home/.config/bashrc'' \<mapsto> SymlinkTo ''/home/.dotfiles/.bashrc'']"

definition home_listing :: "string \<Rightarrow> string list" where
  "home_listing dir =
     (if dir = ''/home'' then [''.dotfiles'', ''.bashrc'', ''.config'']
      else if dir = ''/home/.dotfiles'' then [''.bashrc'']
      else if dir = ''/home/.config'' then [''bashrc'']
      else [])"

definition bashrc_record :: Symlink where
  "bashrc_record = \<lparr>Target = ''~/.dotfiles/.bashrc'', Link = ''~/.bashrc''\<rparr>"

text \<open>The records of the configuration file, none when it is absent or unreadable.\<close>

definition persisted_set :: "Manager \<Rightarrow> world \<Rightarrow> Symlink list" where
  "persisted_set mgr w =
     (case toml w (configFile mgr) of Holds c \<Rightarrow> Symlinks c | _ \<Rightarrow> [])"

section \<open>Facts about first-occurrence replacement\<close>

lemma Replace1_prefix:
  "prefix old s \<Longrightarrow> strings_Replace1 s old new = new @ drop (length old) s"
  by (cases s) auto

lemma Replace1_at_front: "strings_Replace1 (old @ rest) old new = new @ rest"
  by (simp add: Replace1_prefix)

lemma Replace1_absent:
  "c \<notin> set s \<Longrightarrow> strings_Replace1 s [c] new = s"
  by (induction s) (auto simp: prefix_Cons)

lemma Replace1_first_char:
  "c \<notin> set a \<Longrightarrow> strings_Replace1 (a @ c # b) [c] new = a @ new @ b"
  by (induction a) (auto simp: prefix_Cons)

lemma ExpandHome_UnexpandHome:
  "prefix home p \<Longrightarrow> ExpandHome (UnexpandHome p home) home = p"
proof -
  assume "prefix home p"
  then obtain rest where p: "p = home @ rest"
    by (auto simp: prefix_def)
  have "UnexpandHome p home = ''~'' @ rest"
    unfolding UnexpandHome_def p by (rule Replace1_at_front)
  moreover have "ExpandHome (''~'' @ rest) home = home @ rest"
    unfolding ExpandHome_def by (rule Replace1_at_front)
  ultimately show ?thesis
    by (simp add: p)
qed

lemma UnexpandHome_ExpandHome:
  "prefix ''~'' p \<Longrightarrow> UnexpandHome (ExpandHome p home) home = p"
proof -
  assume "prefix ''~'' p"
  then obtain rest where p: "p = ''~'' @ rest"
    by (auto simp: prefix_def)
  have "ExpandHome p home = home @ rest"
    unfolding ExpandHome_def p by (rule Replace1_at_front)
  moreover have "UnexpandHome (home @ rest) home = ''~'' @ rest"
    unfolding UnexpandHome_def by (rule Replace1_at_front)
  ultimately show ?thesis
    by (simp add: p)
qed

section \<open>Claims about home-directory substitution\<close>

text \<open>
  C7. Round trip of the home-directory substitution on symlinks under the home
  directory. For a symlink in expanded form (both fields begin with the absolute home
  path), unexpanding and expanding again gives the symlink back; for a symlink in
  unexpanded form (both fields begin with the tilde), expanding and unexpanding again
  gives the symlink back. The substitution acts on each field on its own.
\<close>

theorem Expand_Unexpand_roundtrip:
  "(prefix home (Target s) \<and> prefix home (Link s) \<longrightarrow> Expand home (Unexpand home s) = s) \<and>
   (prefix ''~'' (Target s) \<and> prefix ''~'' (Link s) \<longrightarrow> Unexpand home (Expand home s) = s)"
  by (simp add: Expand_def Unexpand_def ExpandHome_UnexpandHome UnexpandHome_ExpandHome)

theorem Expand_Unexpand_roundtrip_witness:
  "Expand ''/home'' (Unexpand ''/home'' \<lparr>Target = ''/home/.dotfiles/vimrc'', Link = ''/home/.vimrc''\<rparr>)
     = \<lparr>Target = ''/home/.dotfiles/vimrc'', Link = ''/home/.vimrc''\<rparr> \<and>
   Unexpand ''/home'' \<lparr>Target = ''/home/.dotfiles/vimrc'', Link = ''/home/.vimrc''\<rparr>
     = \<lparr>Target = ''~/.dotfiles/vimrc'', Link = ''~/.vimrc''\<rparr> \<and>
   Unexpand ''/home'' (Expand ''/home'' \<lparr>Target = ''~/.dotfiles/vimrc'', Link = ''~/.vimrc''\<rparr>)
     = \<lparr>Target = ''~/.dotfiles/vimrc'', Link = ''~/.vimrc''\<rparr>"
  using Expand_Unexpand_roundtrip [of "''/home''" "\<lparr>Target = ''/home/.dotfiles/vimrc'', Link = ''/home/.vimrc''\<rparr>"]
    Expand_Unexpand_roundtrip [of "''/home''" "\<lparr>Target = ''~/.dotfiles/vimrc'', Link = ''~/.vimrc''\<rparr>"]
  by (simp add: Unexpand_def UnexpandHome_def)

text \<open>
  C8 (as the code has it). \<open>ExpandHome\<close> replaces the first tilde of the path, wherever
  it stands, by the home path: a path with no tilde at all is returned unchanged; in a
  path with a tilde, the text before the first tilde and everything after it (further
  tildes included) is kept and that first tilde alone becomes the home path. A path
  that begins with a tilde therefore has exactly its leading tilde replaced.
\<close>

theorem ExpandHome_first_tilde:
  "(CHR ''~'' \<notin> set p \<longrightarrow> ExpandHome p home = p) \<and>
   (CHR ''~'' \<notin> set a \<longrightarrow> ExpandHome (a @ ''~'' @ b) home = a @ home @ b) \<and>
   ExpandHome (''~'' @ b) home = home @ b"
  by (simp add: ExpandHome_def Replace1_absent Replace1_first_char)

theorem ExpandHome_first_tilde_witness:
  "ExpandHome ''/etc/hosts'' ''/home'' = ''/etc/hosts'' \<and>
   ExpandHome ''/etc/a~b~c'' ''/home'' = ''/etc/a/homeb~c'' \<and>
   ExpandHome ''~/x~'' ''/home'' = ''/home/x~''"
  using ExpandHome_first_tilde [of "''/etc/hosts''" "''/home''" "''/etc/a''" "''b~c''"]
    ExpandHome_first_tilde [of "''/etc/hosts''" "''/home''" "[]" "''/x~''"]
  by simp

text \<open>
  The claim as worded fails: a path that does not begin with a tilde but has one
  further on (a backup file name with a trailing tilde) is changed.
\<close>

theorem ExpandHome_embedded_tilde_counterexample:
  "\<not> prefix ''~'' ''/etc/hosts~'' \<and>
   ExpandHome ''/etc/hosts~'' ''/home'' = ''/etc/hosts/home'' \<and>
   ExpandHome ''/etc/hosts~'' ''/home'' \<noteq> ''/etc/hosts~''"
  by (simp add: ExpandHome_def)

section \<open>Facts about the loops and the resolution of paths\<close>

lemma Symlink_eq_iff: "(a = b) = (Target a = Target b \<and> Link a = Link b)" for a b :: Symlink
  by (cases a, cases b) simp

lemma already_stored_iff: "already_stored u xs = (u \<in> set xs)"
  by (induction xs) (auto simp: Symlink_eq_iff)

lemma matching_loop_result:
  "matching_loop l xs (v, f) =
     (if xs = [] then v else last xs, f \<or> (\<exists>r \<in> set xs. Link r = l))"
  by (induction xs arbitrary: v f) auto

lemma matchingSymlink_Some:
  "matchingSymlink l xs = Some m \<Longrightarrow> (\<exists>r \<in> set xs. Link r = l) \<and> m = last xs"
  by (auto simp: matchingSymlink_def matching_loop_result split: if_splits)

lemma matchingSymlink_None:
  "(matchingSymlink l xs = None) = (\<forall>r \<in> set xs. Link r \<noteq> l)"
  by (auto simp: matchingSymlink_def matching_loop_result split: if_splits)

lemma AsAbsolute_Inr:
  "AsAbsolute fs wd p = Inr a \<Longrightarrow> a = (if isAbs p then p else wd @ ''/'' @ p) \<and> fs a \<noteq> None"
  by (auto simp: AsAbsolute_def Let_def split: option.splits if_splits)

text \<open>Unfolding rules for running the model on concrete states.\<close>

lemmas model_simps = Add_def Remove_def call_Ensure_def call_Remove_def addToConfiguration_def
  removeFromConfiguration_def readConfiguration_def ReadToml_def SaveToml_def AsAbsolute_def
  isAbs_def matchingSymlink_def Symlink_String_def persisted_set_def Let_def

lemmas test_simps = test_mgr_def test_conf_def NewManager_def NewLinkManager_def test_world_def
  fs_unlinked_def fs_linked_def fs_clobbered_def bashrc_record_def linkManager_New_def
  linkManager_Ensure_def linkManager_Remove_def relativeTo_def reroot_def Expand_def Unexpand_def
  ExpandHome_def UnexpandHome_def

section \<open>Claims about the Set Manager\<close>

text \<open>
  C1 (as the code has it). Whenever \<open>Add\<close> returns an error, the persisted set is as it
  was before the call. When the target cannot be resolved, nothing at all has been
  touched. Otherwise the filesystem is left exactly as the Link Manager's \<open>Ensure\<close>
  left it: nothing is rolled back. An error of \<open>Ensure\<close> is wrapped and returned before
  the persisted set is read; an error of persisting is returned together with the
  symlink built by \<open>New\<close>, after \<open>Ensure\<close> has run.
\<close>

theorem Add_error_no_rollback:
  assumes "Add mgr target newLocation w = ((r, Some e), w')"
  shows "toml w' = toml w \<and>
    (case AsAbsolute (Fs w) (WorkingDir (config mgr)) target of
       Inl err \<Rightarrow> r = None \<and> e = err \<and> w' = w
     | Inr absTarget \<Rightarrow>
         (let symlink = lmNew (LinkManager mgr) newLocation absTarget;
              (err, fs') = lmEnsure (LinkManager mgr) symlink (Fs w)
          in Fs w' = fs' \<and>
             (case err of
                Some e0 \<Rightarrow>
                  r = None \<and>
                  e = Wrapf e0 (''failed to ensure '' @ Symlink_String symlink @ '' exists'') \<and>
                  calls w' = calls w @ [CallEnsure symlink]
              | None \<Rightarrow>
                  r = Some symlink \<and>
                  prefix (calls w @ [CallEnsure symlink, CallReadToml (configFile mgr)]) (calls w'))))"
  using assms
  by (auto simp: Add_def call_Ensure_def addToConfiguration_def readConfiguration_def
      ReadToml_def SaveToml_def Let_def
      split: sum.splits prod.splits option.splits if_splits persisted.splits)

theorem Add_error_no_rollback_witness:
  "toml (snd (Add test_mgr ''/home/.dotfiles/.bashrc'' []
         (test_world fs_unlinked (Holds \<lparr>Symlinks = []\<rparr>) (Some (ErrOther ''disk full''))))) =
   toml (test_world fs_unlinked (Holds \<lparr>Symlinks = []\<rparr>) (Some (ErrOther ''disk full''))) \<and>
   Fs (snd (Add test_mgr ''/home/.dotfiles/.bashrc'' []
         (test_world fs_unlinked (Holds \<lparr>Symlinks = []\<rparr>) (Some (ErrOther ''disk full''))))) =
   snd (linkManager_Ensure \<lparr>Target = ''/home/.dotfiles/.bashrc'', Link = ''/home/.bashrc''\<rparr> fs_unlinked)"
proof -
  let ?w = "test_world fs_unlinked (Holds \<lparr>Symlinks = []\<rparr>) (Some (ErrOther ''disk full''))"
  let ?s = "\<lparr>Target = ''/home/.dotfiles/.bashrc'', Link = ''/home/.bashrc''\<rparr>"
  have "fst (Add test_mgr ''/home/.dotfiles/.bashrc'' [] ?w) = (Some ?s, Some (ErrOther ''disk full''))"
    by (simp add: model_simps test_simps)
  then have run: "Add test_mgr ''/home/.dotfiles/.bashrc'' [] ?w =
      ((Some ?s, Some (ErrOther ''disk full'')), snd (Add test_mgr ''/home/.dotfiles/.bashrc'' [] ?w))"
    by (simp add: prod_eq_iff)
  have abs: "AsAbsolute fs_unlinked (WorkingDir (config test_mgr)) ''/home/.dotfiles/.bashrc'' =
      Inr ''/home/.dotfiles/.bashrc''"
    by (simp add: model_simps test_simps)
  have new: "lmNew (LinkManager test_mgr) [] ''/home/.dotfiles/.bashrc'' = ?s"
    by (simp add: model_simps test_simps)
  have ens: "lmEnsure (LinkManager test_mgr) = linkManager_Ensure"
    by (simp add: test_simps)
  have fs: "Fs ?w = fs_unlinked"
    by (simp add: test_world_def)
  from Add_error_no_rollback [OF run] show ?thesis
    by (simp add: fs abs new ens Let_def split: prod.splits option.splits)
qed

text \<open>
  The claim as worded fails: when saving the record fails after \<open>Ensure\<close> has made the
  link, \<open>Add\<close> returns the error, the symbolic link exists and the persisted set has no
  record of it.
\<close>

theorem Add_save_failure_counterexample:
  "fst (Add test_mgr ''/home/.dotfiles/.bashrc'' []
         (test_world fs_unlinked (Holds \<lparr>Symlinks = []\<rparr>) (Some (ErrOther ''disk full'')))) =
     (Some \<lparr>Target = ''/home/.dotfiles/.bashrc'', Link = ''/home/.bashrc''\<rparr>,
      Some (ErrOther ''disk full'')) \<and>
   Fs (snd (Add test_mgr ''/home/.dotfiles/.bashrc'' []
         (test_world fs_unlinked (Holds \<lparr>Symlinks = []\<rparr>) (Some (ErrOther ''disk full'')))))
      ''/home/.bashrc'' = Some (SymlinkTo ''/home/.dotfiles/.bashrc'') \<and>
   persisted_set test_mgr (snd (Add test_mgr ''/home/.dotfiles/.bashrc'' []
         (test_world fs_unlinked (Holds \<lparr>Symlinks = []\<rparr>) (Some (ErrOther ''disk full''))))) = []"
  by (simp add: model_simps test_simps)

text \<open>Facts about the walk and the result list of the survey.\<close>

lemma walk_sound:
  "(link, t) \<in> set (walk readDir fs depth dir) \<Longrightarrow> discovered readDir fs depth dir link t"
proof (induction depth arbitrary: dir)
  case 0
  then show ?case by simp
next
  case (Suc depth)
  from Suc.prems obtain name where n: "name \<in> set (readDir dir)"
    and m: "(link, t) \<in> set (case fs (dir @ ''/'' @ name) of
                      Some (SymlinkTo t) \<Rightarrow> [(dir @ ''/'' @ name, t)]
                    | Some Dir \<Rightarrow> walk readDir fs depth (dir @ ''/'' @ name)
                    | _ \<Rightarrow> [])"
    by auto
  show ?case
  proof (cases "fs (dir @ ''/'' @ name)")
    case None
    with m show ?thesis by simp
  next
    case (Some nd)
    show ?thesis
    proof (cases nd)
      case File
      with Some m show ?thesis by simp
    next
      case Dir
      with Some m have "(link, t) \<in> set (walk readDir fs depth (dir @ ''/'' @ name))"
        by simp
      then have "discovered readDir fs depth (dir @ ''/'' @ name) link t"
        by (rule Suc.IH)
      with n discovered.below [where name = name and readDir = readDir and dir = dir and fs = fs
          and depth = depth and link = link and t = t] Some Dir show ?thesis
        by simp
    next
      case (SymlinkTo t')
      with Some m have "link = dir @ ''/'' @ name" and "t = t'"
        by simp_all
      with n discovered.entry [where name = name and readDir = readDir and dir = dir and fs = fs
          and t = t' and depth = depth] Some SymlinkTo show ?thesis
        by simp
    qed
  qed
qed

lemma walk_complete:
  "discovered readDir fs depth dir link t \<Longrightarrow> (link, t) \<in> set (walk readDir fs depth dir)"
proof (induction rule: discovered.induct)
  case (entry name dir t depth)
  then show ?case by force
next
  case (below name dir depth link t)
  then show ?case by force
qed

lemma walk_iff:
  "((link, t) \<in> set (walk readDir fs depth dir)) = discovered readDir fs depth dir link t"
  using walk_sound walk_complete by blast

lemma add_if_absent_set: "set (foldl add_if_absent acc xs) = set acc \<union> set xs"
  by (induction xs arbitrary: acc) (auto simp: add_if_absent_def already_stored_iff)

lemma add_if_absent_distinct: "distinct acc \<Longrightarrow> distinct (foldl add_if_absent acc xs)"
  by (induction xs arbitrary: acc) (auto simp: add_if_absent_def already_stored_iff)

lemmas survey_simps = symlink_Dump_def add_if_absent_def home_listing_def fs_tree_def

text \<open>
  C2. The records returned by \<open>Dump\<close> for search roots and a maximal depth are
  exactly the unexpanded records, built by the Link Manager's \<open>New\<close>, of the symbolic
  links that lie within that many levels of one of the roots; no two of them have the
  same \<open>Target\<close> and \<open>Link\<close>. \<open>Dump\<close> leaves the state as it is, and its result does
  not depend on the persisted set.
\<close>

theorem symlink_Dump_survey:
  "set (fst (symlink_Dump mgr readDir searchRoots maxDepth w)) =
     {lmUnexpand (LinkManager mgr) (lmNew (LinkManager mgr) link t) | link t root.
        root \<in> set searchRoots \<and> discovered readDir (Fs w) maxDepth root link t} \<and>
   distinct (fst (symlink_Dump mgr readDir searchRoots maxDepth w)) \<and>
   snd (symlink_Dump mgr readDir searchRoots maxDepth w) = w \<and>
   fst (symlink_Dump mgr readDir searchRoots maxDepth (w\<lparr>toml := stored\<rparr>)) =
     fst (symlink_Dump mgr readDir searchRoots maxDepth w)"
proof -
  have "set (fst (symlink_Dump mgr readDir searchRoots maxDepth w)) =
     {lmUnexpand (LinkManager mgr) (lmNew (LinkManager mgr) link t) | link t root.
        root \<in> set searchRoots \<and> discovered readDir (Fs w) maxDepth root link t}"
    by (auto simp: symlink_Dump_def add_if_absent_set walk_iff [symmetric])
  then show ?thesis
    by (simp add: symlink_Dump_def add_if_absent_distinct)
qed

theorem symlink_Dump_survey_witness:
  "fst (symlink_Dump test_mgr home_listing [''/home'', ''/home''] 2 (test_world fs_tree Absent None)) =
     [\<lparr>Target = ''~/.dotfiles/.bashrc'', Link = ''~/.bashrc''\<rparr>,
      \<lparr>Target = ''~/.dotfiles/.bashrc'', Link = ''~/.config/bashrc''\<rparr>] \<and>
   fst (symlink_Dump test_mgr home_listing [''/home'', ''/home''] 1 (test_world fs_tree Absent None)) =
     [\<lparr>Target = ''~/.dotfiles/.bashrc'', Link = ''~/.bashrc''\<rparr>] \<and>
   fst (symlink_Dump test_mgr home_listing [''/home'', ''/home''] 2
          (test_world fs_tree (Holds \<lparr>Symlinks = [bashrc_record]\<rparr>) None)) =
     fst (symlink_Dump test_mgr home_listing [''/home'', ''/home''] 2 (test_world fs_tree Absent None)) \<and>
   snd (symlink_Dump test_mgr home_listing [''/home'', ''/home''] 2 (test_world fs_tree Absent None)) =
     test_world fs_tree Absent None \<and>
   discovered home_listing fs_tree 2 ''/home'' ''/home/.config/bashrc'' ''/home/.dotfiles/.bashrc''"
proof -
  let ?w = "test_world fs_tree Absent None"
  let ?stored = "toml (test_world fs_tree (Holds \<lparr>Symlinks = [bashrc_record]\<rparr>) None)"
  note survey = symlink_Dump_survey [of test_mgr home_listing "[''/home'', ''/home'']" 2 ?w ?stored]
  have two: "fst (symlink_Dump test_mgr home_listing [''/home'', ''/home''] 2 ?w) =
     [\<lparr>Target = ''~/.dotfiles/.bashrc'', Link = ''~/.bashrc''\<rparr>,
      \<lparr>Target = ''~/.dotfiles/.bashrc'', Link = ''~/.config/bashrc''\<rparr>]"
    by (simp add: survey_simps model_simps test_simps numeral_2_eq_2)
  have one: "fst (symlink_Dump test_mgr home_listing [''/home'', ''/home''] 1 ?w) =
     [\<lparr>Target = ''~/.dotfiles/.bashrc'', Link = ''~/.bashrc''\<rparr>]"
    by (simp add: survey_simps model_simps test_simps)
  have upd: "?w\<lparr>toml := ?stored\<rparr> = test_world fs_tree (Holds \<lparr>Symlinks = [bashrc_record]\<rparr>) None"
    by (simp add: test_world_def)
  have "discovered home_listing fs_tree 2 ''/home'' ''/home/.config/bashrc'' ''/home/.dotfiles/.bashrc''"
    by (simp add: walk_iff [symmetric] survey_simps numeral_2_eq_2)
  with survey two one upd show ?thesis
    by simp
qed

text \<open>
  C3. When the lookup of \<open>Remove\<close> finds a record and the Link Manager's \<open>Remove\<close>
  then returns an error, the Set Manager's \<open>Remove\<close> returns that error wrapped, makes
  no call to save the configuration, and the persisted set is what it was: a record
  for that link is still in it.
\<close>

theorem Remove_failure_keeps_record:
  assumes "AsAbsolute (Fs w) (WorkingDir (config mgr)) link = Inr absLink"
    and "matchingSymlink (UnexpandHome absLink (UserHome (config mgr))) (persisted_set mgr w) = Some m"
    and "lmRemove (LinkManager mgr) absLink (Target (lmExpand (LinkManager mgr) m)) (Fs w) = (Inl e, fs')"
  shows "Remove mgr link w =
           (Some (Wrapf e (''failed to remove link '' @ UnexpandHome absLink (UserHome (config mgr)))),
            w\<lparr>Fs := fs',
              calls := calls w @ [CallReadToml (configFile mgr),
                                  CallRemove absLink (Target (lmExpand (LinkManager mgr) m))]\<rparr>) \<and>
         persisted_set mgr (snd (Remove mgr link w)) = persisted_set mgr w \<and>
         (\<exists>r \<in> set (persisted_set mgr (snd (Remove mgr link w))).
            Link r = UnexpandHome absLink (UserHome (config mgr)))"
proof -
  let ?l = "UnexpandHome absLink (UserHome (config mgr))"
  from assms(2) have ex: "\<exists>r \<in> set (persisted_set mgr w). Link r = ?l"
    by (simp add: matchingSymlink_Some)
  have rd: "fst (fst (readConfiguration mgr w)) = \<lparr>Symlinks = persisted_set mgr w\<rparr>"
    by (simp add: readConfiguration_def ReadToml_def persisted_set_def split: persisted.splits)
  have res: "Remove mgr link w =
           (Some (Wrapf e (''failed to remove link '' @ ?l)),
            w\<lparr>Fs := fs',
              calls := calls w @ [CallReadToml (configFile mgr),
                                  CallRemove absLink (Target (lmExpand (LinkManager mgr) m))]\<rparr>)"
    using assms rd
    by (auto simp: Remove_def Let_def readConfiguration_def ReadToml_def call_Remove_def
        split: prod.splits option.splits)
  show ?thesis
    using ex by (simp add: res persisted_set_def)
qed

theorem Remove_failure_keeps_record_witness:
  "fst (Remove test_mgr ''/home/.bashrc''
         (test_world fs_clobbered (Holds \<lparr>Symlinks = [bashrc_record]\<rparr>) None)) =
     Some (Wrapf (ErrOther ''/home/.bashrc is not a symlink'') ''failed to remove link ~/.bashrc'') \<and>
   persisted_set test_mgr (snd (Remove test_mgr ''/home/.bashrc''
         (test_world fs_clobbered (Holds \<lparr>Symlinks = [bashrc_record]\<rparr>) None))) = [bashrc_record]"
proof -
  let ?w = "test_world fs_clobbered (Holds \<lparr>Symlinks = [bashrc_record]\<rparr>) None"
  have abs: "AsAbsolute (Fs ?w) (WorkingDir (config test_mgr)) ''/home/.bashrc'' = Inr ''/home/.bashrc''"
    by (simp add: model_simps test_simps)
  have found: "matchingSymlink (UnexpandHome ''/home/.bashrc'' (UserHome (config test_mgr)))
                 (persisted_set test_mgr ?w) = Some bashrc_record"
    by (simp add: model_simps test_simps)
  have fails: "lmRemove (LinkManager test_mgr) ''/home/.bashrc''
                 (Target (lmExpand (LinkManager test_mgr) bashrc_record)) (Fs ?w) =
               (Inl (ErrOther ''/home/.bashrc is not a symlink''), fs_clobbered)"
    by (simp add: model_simps test_simps)
  have pset: "persisted_set test_mgr ?w = [bashrc_record]"
    by (simp add: model_simps test_simps)
  have home: "UnexpandHome ''/home/.bashrc'' (UserHome (config test_mgr)) = ''~/.bashrc''"
    by (simp add: test_simps)
  note kept = Remove_failure_keeps_record [OF abs found fails]
  from kept have "fst (Remove test_mgr ''/home/.bashrc'' ?w) =
      Some (Wrapf (ErrOther ''/home/.bashrc is not a symlink'')
        (''failed to remove link '' @ UnexpandHome ''/home/.bashrc'' (UserHome (config test_mgr))))"
    by simp
  moreover from kept have "persisted_set test_mgr (snd (Remove test_mgr ''/home/.bashrc'' ?w)) =
      persisted_set test_mgr ?w"
    by blast
  ultimately show ?thesis
    by (simp add: home pset)
qed

text \<open>
  C4. When no record of the persisted set that was read has the unexpanded resolved
  link, \<open>Remove\<close> returns the not-found-in-configuration error; the only collaborator
  call it has made is reading the configuration, so the Link Manager's \<open>Remove\<close> is
  never invoked and the filesystem and the persisted set are untouched.
\<close>

theorem Remove_not_found_untouched:
  assumes "AsAbsolute (Fs w) (WorkingDir (config mgr)) link = Inr absLink"
    and "\<forall>r \<in> set (Symlinks (fst (fst (readConfiguration mgr w)))).
           Link r \<noteq> UnexpandHome absLink (UserHome (config mgr))"
  shows "Remove mgr link w =
           (Some (Errorf (''unable to find link '' @ UnexpandHome absLink (UserHome (config mgr)) @
                          '' in configuration'')),
            w\<lparr>calls := calls w @ [CallReadToml (configFile mgr)]\<rparr>)"
  using assms
  by (auto simp: Remove_def Let_def readConfiguration_def ReadToml_def matchingSymlink_None [symmetric]
      split: prod.splits option.splits)

theorem Remove_not_found_untouched_witness:
  "fst (Remove test_mgr ''/home/.bashrc'' (test_world fs_linked (Holds \<lparr>Symlinks = []\<rparr>) None)) =
     Some (Errorf ''unable to find link ~/.bashrc in configuration'') \<and>
   Fs (snd (Remove test_mgr ''/home/.bashrc'' (test_world fs_linked (Holds \<lparr>Symlinks = []\<rparr>) None))) =
     fs_linked \<and>
   calls (snd (Remove test_mgr ''/home/.bashrc'' (test_world fs_linked (Holds \<lparr>Symlinks = []\<rparr>) None))) =
     [CallReadToml ''/home/.config/punkt/symlinks.toml'']"
proof -
  let ?w = "test_world fs_linked (Holds \<lparr>Symlinks = []\<rparr>) None"
  have abs: "AsAbsolute (Fs ?w) (WorkingDir (config test_mgr)) ''/home/.bashrc'' = Inr ''/home/.bashrc''"
    by (simp add: model_simps test_simps)
  have none: "\<forall>r \<in> set (Symlinks (fst (fst (readConfiguration test_mgr ?w)))).
                Link r \<noteq> UnexpandHome ''/home/.bashrc'' (UserHome (config test_mgr))"
    by (simp add: model_simps test_simps)
  have home: "UnexpandHome ''/home/.bashrc'' (UserHome (config test_mgr)) = ''~/.bashrc''"
    by (simp add: test_simps)
  have cfgfile: "configFile test_mgr = ''/home/.config/punkt/symlinks.toml''"
    by (simp add: test_simps)
  have start: "Fs ?w = fs_linked" "calls ?w = []"
    by (simp_all add: test_world_def)
  from Remove_not_found_untouched [OF abs none] show ?thesis
    unfolding home cfgfile by (simp add: start)
qed

text \<open>
  C6 (as the code has it). A configuration file that does not exist is treated as
  empty existing state by both operations: \<open>Add\<close> and \<open>Remove\<close> return what they return
  when the file holds an empty set, \<open>Remove\<close> ends in the same state but for the file
  still being absent, and the no-such-file error of the read is not what \<open>Remove\<close>
  returns; when \<open>Ensure\<close> and the save succeed, \<open>Add\<close> stores the record as the only
  one and returns no error. Any other error of reading is returned by \<open>Add\<close> as it is,
  not wrapped, next to the symlink built by \<open>New\<close>, and nothing is saved.
\<close>

theorem read_failure_handling:
  "(AsAbsolute (Fs w) (WorkingDir (config mgr)) target = Inr absTarget \<and>
    symlink = lmNew (LinkManager mgr) newLocation absTarget \<and>
    lmEnsure (LinkManager mgr) symlink (Fs w) = (None, fs') \<and>
    toml w (configFile mgr) = Absent \<and> save_error w = None \<longrightarrow>
      fst (Add mgr target newLocation w) = (Some symlink, None) \<and>
      toml (snd (Add mgr target newLocation w)) (configFile mgr) =
        Holds \<lparr>Symlinks = [lmUnexpand (LinkManager mgr) symlink]\<rparr>) \<and>
   (AsAbsolute (Fs w) (WorkingDir (config mgr)) target = Inr absTarget \<and>
    symlink = lmNew (LinkManager mgr) newLocation absTarget \<and>
    lmEnsure (LinkManager mgr) symlink (Fs w) = (None, fs') \<and>
    toml w (configFile mgr) = Garbled msg \<longrightarrow>
      fst (Add mgr target newLocation w) = (Some symlink, Some (ErrOther msg)) \<and>
      toml (snd (Add mgr target newLocation w)) = toml w \<and>
      calls (snd (Add mgr target newLocation w)) =
        calls w @ [CallEnsure symlink, CallReadToml (configFile mgr)]) \<and>
   (toml w (configFile mgr) = Absent \<longrightarrow>
      fst (Add mgr target newLocation w) =
        fst (Add mgr target newLocation
               (w\<lparr>toml := (toml w)(configFile mgr := Holds \<lparr>Symlinks = []\<rparr>)\<rparr>)) \<and>
      Remove mgr link w =
        (fst (Remove mgr link (w\<lparr>toml := (toml w)(configFile mgr := Holds \<lparr>Symlinks = []\<rparr>)\<rparr>)),
         (snd (Remove mgr link (w\<lparr>toml := (toml w)(configFile mgr := Holds \<lparr>Symlinks = []\<rparr>)\<rparr>)))
           \<lparr>toml := toml w\<rparr>) \<and>
      fst (Remove mgr link w) \<noteq> Some ErrNoSuchFile)"
proof -
  have add_ok: "AsAbsolute (Fs w) (WorkingDir (config mgr)) target = Inr absTarget \<and>
    symlink = lmNew (LinkManager mgr) newLocation absTarget \<and>
    lmEnsure (LinkManager mgr) symlink (Fs w) = (None, fs') \<and>
    toml w (configFile mgr) = Absent \<and> save_error w = None \<longrightarrow>
      fst (Add mgr target newLocation w) = (Some symlink, None) \<and>
      toml (snd (Add mgr target newLocation w)) (configFile mgr) =
        Holds \<lparr>Symlinks = [lmUnexpand (LinkManager mgr) symlink]\<rparr>"
    by (auto simp: Add_def call_Ensure_def addToConfiguration_def readConfiguration_def
        ReadToml_def SaveToml_def Let_def
        split: sum.splits prod.splits option.splits if_splits persisted.splits)
  have add_err: "AsAbsolute (Fs w) (WorkingDir (config mgr)) target = Inr absTarget \<and>
    symlink = lmNew (LinkManager mgr) newLocation absTarget \<and>
    lmEnsure (LinkManager mgr) symlink (Fs w) = (None, fs') \<and>
    toml w (configFile mgr) = Garbled msg \<longrightarrow>
      fst (Add mgr target newLocation w) = (Some symlink, Some (ErrOther msg)) \<and>
      toml (snd (Add mgr target newLocation w)) = toml w \<and>
      calls (snd (Add mgr target newLocation w)) =
        calls w @ [CallEnsure symlink, CallReadToml (configFile mgr)]"
    by (auto simp: Add_def call_Ensure_def addToConfiguration_def readConfiguration_def
        ReadToml_def SaveToml_def Let_def
        split: sum.splits prod.splits option.splits if_splits persisted.splits)
  have add_same: "toml w (configFile mgr) = Absent \<longrightarrow>
      fst (Add mgr target newLocation w) =
        fst (Add mgr target newLocation
               (w\<lparr>toml := (toml w)(configFile mgr := Holds \<lparr>Symlinks = []\<rparr>)\<rparr>))"
    by (auto simp: Add_def call_Ensure_def addToConfiguration_def readConfiguration_def
        ReadToml_def SaveToml_def Let_def
        split: sum.splits prod.splits option.splits if_splits persisted.splits)
  have remove_same: "toml w (configFile mgr) = Absent \<longrightarrow>
      Remove mgr link w =
        (fst (Remove mgr link (w\<lparr>toml := (toml w)(configFile mgr := Holds \<lparr>Symlinks = []\<rparr>)\<rparr>)),
         (snd (Remove mgr link (w\<lparr>toml := (toml w)(configFile mgr := Holds \<lparr>Symlinks = []\<rparr>)\<rparr>)))
           \<lparr>toml := toml w\<rparr>) \<and>
      fst (Remove mgr link w) \<noteq> Some ErrNoSuchFile"
    by (auto simp: Remove_def readConfiguration_def ReadToml_def Let_def matchingSymlink_def
        AsAbsolute_def split: sum.splits prod.splits option.splits if_splits)
  from add_ok add_err add_same remove_same show ?thesis
    by blast
qed

theorem read_failure_handling_witness:
  "fst (Add test_mgr ''/home/.dotfiles/.bashrc'' [] (test_world fs_unlinked Absent None)) =
     (Some \<lparr>Target = ''/home/.dotfiles/.bashrc'', Link = ''/home/.bashrc''\<rparr>, None) \<and>
   toml (snd (Add test_mgr ''/home/.dotfiles/.bashrc'' [] (test_world fs_unlinked Absent None)))
     ''/home/.config/punkt/symlinks.toml'' = Holds \<lparr>Symlinks = [bashrc_record]\<rparr> \<and>
   fst (Add test_mgr ''/home/.dotfiles/.bashrc'' [] (test_world fs_unlinked (Garbled ''bad toml'') None)) =
     (Some \<lparr>Target = ''/home/.dotfiles/.bashrc'', Link = ''/home/.bashrc''\<rparr>,
      Some (ErrOther ''bad toml'')) \<and>
   toml (snd (Add test_mgr ''/home/.dotfiles/.bashrc'' [] (test_world fs_unlinked (Garbled ''bad toml'') None))) =
     toml (test_world fs_unlinked (Garbled ''bad toml'') None) \<and>
   fst (Add test_mgr ''/home/.dotfiles/.bashrc'' [] (test_world fs_linked Absent None)) =
     fst (Add test_mgr ''/home/.dotfiles/.bashrc'' []
            (test_world fs_linked (Holds \<lparr>Symlinks = []\<rparr>) None)) \<and>
   fst (Remove test_mgr ''/home/.bashrc'' (test_world fs_linked Absent None)) =
     fst (Remove test_mgr ''/home/.bashrc'' (test_world fs_linked (Holds \<lparr>Symlinks = []\<rparr>) None)) \<and>
   fst (Remove test_mgr ''/home/.bashrc'' (test_world fs_linked Absent None)) \<noteq> Some ErrNoSuchFile"
proof -
  let ?s = "\<lparr>Target = ''/home/.dotfiles/.bashrc'', Link = ''/home/.bashrc''\<rparr>"
  let ?fs = "fs_unlinked(''/home'' \<mapsto> Dir, ''/home/.bashrc'' \<mapsto> SymlinkTo ''/home/.dotfiles/.bashrc'')"
  have abs: "AsAbsolute (Fs (test_world fs_unlinked p None)) (WorkingDir (config test_mgr))
      ''/home/.dotfiles/.bashrc'' = Inr ''/home/.dotfiles/.bashrc''" for p
    by (simp add: model_simps test_simps)
  have new: "?s = lmNew (LinkManager test_mgr) [] ''/home/.dotfiles/.bashrc''"
    by (simp add: model_simps test_simps)
  have ens: "lmEnsure (LinkManager test_mgr) ?s (Fs (test_world fs_unlinked p None)) = (None, ?fs)" for p
    by (simp add: model_simps test_simps)
  have cfg: "toml (test_world fs p None) (configFile test_mgr) = p" "save_error (test_world fs p None) = None"
    "configFile test_mgr = ''/home/.config/punkt/symlinks.toml''" for fs p
    by (simp_all add: test_simps)
  have unex: "lmUnexpand (LinkManager test_mgr) ?s = bashrc_record"
    by (simp add: test_simps)
  have empty: "(test_world fs_linked Absent None)
      \<lparr>toml := (toml (test_world fs_linked Absent None))
                 (configFile test_mgr := Holds \<lparr>Symlinks = []\<rparr>)\<rparr> =
      test_world fs_linked (Holds \<lparr>Symlinks = []\<rparr>) None"
    by (simp add: test_simps fun_eq_iff)
  note h = read_failure_handling [where mgr = test_mgr and target = "''/home/.dotfiles/.bashrc''"
      and absTarget = "''/home/.dotfiles/.bashrc''" and newLocation = "[]" and symlink = ?s
      and fs' = ?fs and link = "''/home/.bashrc''"]
  from h [where w = "test_world fs_unlinked Absent None" and msg = "[]"]
  have a: "fst (Add test_mgr ''/home/.dotfiles/.bashrc'' [] (test_world fs_unlinked Absent None)) =
       (Some ?s, None) \<and>
     toml (snd (Add test_mgr ''/home/.dotfiles/.bashrc'' [] (test_world fs_unlinked Absent None)))
       (configFile test_mgr) = Holds \<lparr>Symlinks = [lmUnexpand (LinkManager test_mgr) ?s]\<rparr>"
    using abs new ens cfg by blast
  from h [where w = "test_world fs_unlinked (Garbled ''bad toml'') None" and msg = "''bad toml''"]
  have b: "fst (Add test_mgr ''/home/.dotfiles/.bashrc'' [] (test_world fs_unlinked (Garbled ''bad toml'') None)) =
       (Some ?s, Some (ErrOther ''bad toml'')) \<and>
     toml (snd (Add test_mgr ''/home/.dotfiles/.bashrc'' [] (test_world fs_unlinked (Garbled ''bad toml'') None))) =
       toml (test_world fs_unlinked (Garbled ''bad toml'') None)"
    using abs new ens cfg by blast
  from h [where w = "test_world fs_linked Absent None" and msg = "[]"]
  have c: "fst (Add test_mgr ''/home/.dotfiles/.bashrc'' [] (test_world fs_linked Absent None)) =
       fst (Add test_mgr ''/home/.dotfiles/.bashrc'' []
              (test_world fs_linked (Holds \<lparr>Symlinks = []\<rparr>) None)) \<and>
     fst (Remove test_mgr ''/home/.bashrc'' (test_world fs_linked Absent None)) =
       fst (Remove test_mgr ''/home/.bashrc'' (test_world fs_linked (Holds \<lparr>Symlinks = []\<rparr>) None)) \<and>
     fst (Remove test_mgr ''/home/.bashrc'' (test_world fs_linked Absent None)) \<noteq> Some ErrNoSuchFile"
    unfolding empty using cfg(1) [of fs_linked Absent] by (metis fst_conv)
  from a [unfolded unex cfg(3)] b c show ?thesis
    by blast
qed

text \<open>
  The claim as worded fails: \<open>Add\<close> hands the error of reading an undecodable
  configuration file to its caller as it is, without wrapping it.
\<close>

theorem read_failure_counterexample:
  "fst (Add test_mgr ''/home/.dotfiles/.bashrc'' [] (test_world fs_unlinked (Garbled ''bad toml'') None)) =
     (Some \<lparr>Target = ''/home/.dotfiles/.bashrc'', Link = ''/home/.bashrc''\<rparr>,
      Some (ErrOther ''bad toml''))"
  by (simp add: model_simps test_simps)

text \<open>
  C10. When the unexpanded pair of an \<open>Add\<close> is already in the persisted set, the
  first collaborator call of \<open>Add\<close> is still the Link Manager's \<open>Ensure\<close>, before the
  configuration is read: the filesystem after \<open>Add\<close> is the one \<open>Ensure\<close> produced,
  and the persisted set is not rewritten. When \<open>Ensure\<close> succeeds, \<open>Add\<close> returns the
  symlink with no error after exactly two calls, \<open>Ensure\<close> and the read.
\<close>

theorem Add_reensures_stored_pair:
  assumes "AsAbsolute (Fs w) (WorkingDir (config mgr)) target = Inr absTarget"
    and "symlink = lmNew (LinkManager mgr) newLocation absTarget"
    and "lmUnexpand (LinkManager mgr) symlink \<in> set (persisted_set mgr w)"
  shows "prefix (calls w @ [CallEnsure symlink]) (calls (snd (Add mgr target newLocation w))) \<and>
         Fs (snd (Add mgr target newLocation w)) = snd (lmEnsure (LinkManager mgr) symlink (Fs w)) \<and>
         toml (snd (Add mgr target newLocation w)) = toml w \<and>
         (fst (lmEnsure (LinkManager mgr) symlink (Fs w)) = None \<longrightarrow>
            Add mgr target newLocation w =
              ((Some symlink, None),
               w\<lparr>Fs := snd (lmEnsure (LinkManager mgr) symlink (Fs w)),
                 calls := calls w @ [CallEnsure symlink, CallReadToml (configFile mgr)]\<rparr>))"
  using assms
  by (auto simp: Add_def call_Ensure_def addToConfiguration_def readConfiguration_def
      ReadToml_def Let_def persisted_set_def already_stored_iff
      split: sum.splits prod.splits option.splits if_splits persisted.splits)

theorem Add_reensures_stored_pair_witness:
  "fst (Add test_mgr ''/home/.dotfiles/.bashrc'' []
         (test_world fs_unlinked (Holds \<lparr>Symlinks = [bashrc_record]\<rparr>) None)) =
     (Some \<lparr>Target = ''/home/.dotfiles/.bashrc'', Link = ''/home/.bashrc''\<rparr>, None) \<and>
   Fs (snd (Add test_mgr ''/home/.dotfiles/.bashrc'' []
         (test_world fs_unlinked (Holds \<lparr>Symlinks = [bashrc_record]\<rparr>) None))) ''/home/.bashrc'' =
     Some (SymlinkTo ''/home/.dotfiles/.bashrc'') \<and>
   toml (snd (Add test_mgr ''/home/.dotfiles/.bashrc'' []
         (test_world fs_unlinked (Holds \<lparr>Symlinks = [bashrc_record]\<rparr>) None))) =
     toml (test_world fs_unlinked (Holds \<lparr>Symlinks = [bashrc_record]\<rparr>) None) \<and>
   calls (snd (Add test_mgr ''/home/.dotfiles/.bashrc'' []
         (test_world fs_unlinked (Holds \<lparr>Symlinks = [bashrc_record]\<rparr>) None))) =
     [CallEnsure \<lparr>Target = ''/home/.dotfiles/.bashrc'', Link = ''/home/.bashrc''\<rparr>,
      CallReadToml ''/home/.config/punkt/symlinks.toml'']"
proof -
  let ?w = "test_world fs_unlinked (Holds \<lparr>Symlinks = [bashrc_record]\<rparr>) None"
  let ?s = "\<lparr>Target = ''/home/.dotfiles/.bashrc'', Link = ''/home/.bashrc''\<rparr>"
  have abs: "AsAbsolute (Fs ?w) (WorkingDir (config test_mgr)) ''/home/.dotfiles/.bashrc'' =
      Inr ''/home/.dotfiles/.bashrc''"
    by (simp add: model_simps test_simps)
  have new: "?s = lmNew (LinkManager test_mgr) [] ''/home/.dotfiles/.bashrc''"
    by (simp add: model_simps test_simps)
  have stored: "lmUnexpand (LinkManager test_mgr) ?s \<in> set (persisted_set test_mgr ?w)"
    by (simp add: model_simps test_simps)
  have ens: "lmEnsure (LinkManager test_mgr) ?s (Fs ?w) =
      (None, fs_unlinked(''/home'' \<mapsto> Dir, ''/home/.bashrc'' \<mapsto> SymlinkTo ''/home/.dotfiles/.bashrc''))"
    by (simp add: model_simps test_simps)
  have cfgfile: "configFile test_mgr = ''/home/.config/punkt/symlinks.toml''"
    by (simp add: test_simps)
  have start: "calls ?w = []"
    by (simp add: test_world_def)
  from Add_reensures_stored_pair [OF abs new stored] show ?thesis
    unfolding ens cfgfile by (simp add: start)
qed

section \<open>The persisted set has no duplicates\<close>

lemma count_list_distinct:
  "distinct xs \<Longrightarrow> x \<in> set xs \<Longrightarrow> count_list xs x = 1"
  by (induction xs) (auto simp: count_list_0_iff)

lemma take_drop_disjoint:
  "distinct xs \<Longrightarrow> x \<in> set (take i xs) \<Longrightarrow> x \<in> set (drop (Suc i) xs) \<Longrightarrow> False"
  using set_take_disj_set_drop_if_distinct [of xs i "Suc i"] by auto

lemma addToConfiguration_distinct:
  "distinct (persisted_set mgr w) \<Longrightarrow>
   distinct (persisted_set mgr (snd (addToConfiguration mgr s w)))"
  by (auto simp: addToConfiguration_def readConfiguration_def ReadToml_def SaveToml_def Let_def
      persisted_set_def already_stored_iff
      split: prod.splits option.splits if_splits persisted.splits)

lemma call_Ensure_persisted:
  "persisted_set mgr (snd (call_Ensure mgr s w)) = persisted_set mgr w"
  by (simp add: call_Ensure_def persisted_set_def split: prod.splits)

lemma Add_preserves_distinct:
  "distinct (persisted_set mgr w) \<Longrightarrow>
   distinct (persisted_set mgr (snd (Add mgr target newLocation w)))"
proof -
  assume d: "distinct (persisted_set mgr w)"
  show ?thesis
  proof (cases "AsAbsolute (Fs w) (WorkingDir (config mgr)) target")
    case (Inl err)
    with d show ?thesis by (simp add: Add_def)
  next
    case (Inr absTarget)
    let ?s = "lmNew (LinkManager mgr) newLocation absTarget"
    obtain err w1 where e: "call_Ensure mgr ?s w = (err, w1)"
      by (cases "call_Ensure mgr ?s w")
    have d1: "distinct (persisted_set mgr w1)"
      using call_Ensure_persisted [of mgr ?s w] d e by simp
    show ?thesis
    proof (cases err)
      case None
      obtain res w2 where a: "addToConfiguration mgr ?s w1 = (res, w2)"
        by (cases "addToConfiguration mgr ?s w1")
      with addToConfiguration_distinct [OF d1, of ?s] have "distinct (persisted_set mgr w2)"
        by simp
      with None Inr e a show ?thesis
        by (simp add: Add_def Let_def split: prod.splits)
    next
      case (Some e0)
      with Inr e d1 show ?thesis
        by (simp add: Add_def Let_def)
    qed
  qed
qed

lemma removeFromConfiguration_distinct:
  "distinct (persisted_set mgr w) \<Longrightarrow>
   distinct (persisted_set mgr (snd (removeFromConfiguration mgr s w)))"
  by (auto simp: removeFromConfiguration_def ReadToml_def SaveToml_def Let_def
      persisted_set_def
      split: prod.splits option.splits if_splits persisted.splits
      dest: take_drop_disjoint)

lemma Remove_preserves_distinct:
  "distinct (persisted_set mgr w) \<Longrightarrow>
   distinct (persisted_set mgr (snd (Remove mgr link w)))"
proof -
  assume d: "distinct (persisted_set mgr w)"
  have rd: "persisted_set mgr (snd (readConfiguration mgr w)) = persisted_set mgr w"
    by (simp add: readConfiguration_def ReadToml_def persisted_set_def)
  have rm: "persisted_set mgr (snd (call_Remove mgr l t v)) = persisted_set mgr v" for l t v
    by (simp add: call_Remove_def persisted_set_def split: prod.splits)
  show ?thesis
  proof (cases "AsAbsolute (Fs w) (WorkingDir (config mgr)) link")
    case (Inl err)
    with d show ?thesis by (simp add: Remove_def)
  next
    case (Inr absLink)
    obtain cfg err w1 where r: "readConfiguration mgr w = ((cfg, err), w1)"
      by (cases "readConfiguration mgr w") auto
    with rd d have d1: "distinct (persisted_set mgr w1)" by simp
    show ?thesis
    proof (cases "matchingSymlink (UnexpandHome absLink (UserHome (config mgr))) (Symlinks cfg)")
      case None
      with Inr r d1 show ?thesis by (simp add: Remove_def)
    next
      case (Some m)
      obtain res w2 where c: "call_Remove mgr absLink (Target (lmExpand (LinkManager mgr) m)) w1 = (res, w2)"
        by (cases "call_Remove mgr absLink (Target (lmExpand (LinkManager mgr) m)) w1")
      with rm [of absLink "Target (lmExpand (LinkManager mgr) m)" w1] d1
      have d2: "distinct (persisted_set mgr w2)" by simp
      show ?thesis
      proof (cases res)
        case (Inl e)
        with Inr r Some c d2 show ?thesis by (simp add: Remove_def)
      next
        case (Inr s)
        obtain res' w3 where f: "removeFromConfiguration mgr s w2 = (res', w3)"
          by (cases "removeFromConfiguration mgr s w2")
        with removeFromConfiguration_distinct [OF d2, of s] have "distinct (persisted_set mgr w3)"
          by simp
        with \<open>AsAbsolute (Fs w) (WorkingDir (config mgr)) link = Inr absLink\<close> r Some c Inr f
        show ?thesis by (simp add: Remove_def split: prod.splits)
      qed
    qed
  qed
qed

lemma Add_success_stored:
  assumes "Add mgr target newLocation w = ((r, None), w1)"
    and "AsAbsolute (Fs w) (WorkingDir (config mgr)) target = Inr absTarget"
  shows "r = Some (lmNew (LinkManager mgr) newLocation absTarget) \<and>
         lmUnexpand (LinkManager mgr) (lmNew (LinkManager mgr) newLocation absTarget)
           \<in> set (persisted_set mgr w1)"
  using assms
  by (auto simp: Add_def call_Ensure_def addToConfiguration_def readConfiguration_def
      ReadToml_def SaveToml_def Let_def persisted_set_def already_stored_iff
      split: sum.splits prod.splits option.splits if_splits persisted.splits)

lemma Add_success_resolves:
  assumes "Add mgr target newLocation w = ((r, None), w1)"
  shows "\<exists>a. AsAbsolute (Fs w) (WorkingDir (config mgr)) target = Inr a"
  using assms by (cases "AsAbsolute (Fs w) (WorkingDir (config mgr)) target") (auto simp: Add_def)

lemma Add_of_stored_pair:
  assumes "Add mgr target newLocation w = ((r, None), w2)"
    and "AsAbsolute (Fs w) (WorkingDir (config mgr)) target = Inr absTarget"
    and "lmUnexpand (LinkManager mgr) (lmNew (LinkManager mgr) newLocation absTarget)
           \<in> set (persisted_set mgr w)"
  shows "toml w2 = toml w \<and>
         calls w2 = calls w @ [CallEnsure (lmNew (LinkManager mgr) newLocation absTarget),
                               CallReadToml (configFile mgr)]"
  using assms
  by (auto simp: Add_def call_Ensure_def addToConfiguration_def readConfiguration_def
      ReadToml_def Let_def persisted_set_def already_stored_iff
      split: sum.splits prod.splits option.splits if_splits persisted.splits)

lemma Add_twice:
  assumes abs: "AsAbsolute (Fs w) (WorkingDir (config mgr)) target = Inr absTarget"
    and first: "Add mgr target newLocation w = ((r1, None), w1)"
    and second: "Add mgr target newLocation w1 = ((r2, None), w2)"
    and d: "distinct (persisted_set mgr w)"
  shows "r1 = Some (lmNew (LinkManager mgr) newLocation absTarget) \<and>
         r2 = Some (lmNew (LinkManager mgr) newLocation absTarget) \<and>
         toml w2 = toml w1 \<and>
         calls w2 = calls w1 @ [CallEnsure (lmNew (LinkManager mgr) newLocation absTarget),
                                CallReadToml (configFile mgr)] \<and>
         count_list (persisted_set mgr w2)
           (lmUnexpand (LinkManager mgr) (lmNew (LinkManager mgr) newLocation absTarget)) = 1"
proof -
  let ?s = "lmNew (LinkManager mgr) newLocation absTarget"
  from Add_success_stored [OF first abs]
  have r1: "r1 = Some ?s" and m1: "lmUnexpand (LinkManager mgr) ?s \<in> set (persisted_set mgr w1)"
    by simp_all
  from Add_success_resolves [OF second] obtain a
    where abs2: "AsAbsolute (Fs w1) (WorkingDir (config mgr)) target = Inr a" ..
  from AsAbsolute_Inr [OF abs] AsAbsolute_Inr [OF abs2] have "a = absTarget"
    by simp
  with abs2 have abs2': "AsAbsolute (Fs w1) (WorkingDir (config mgr)) target = Inr absTarget"
    by simp
  from Add_success_stored [OF second abs2'] have r2: "r2 = Some ?s"
    by simp
  from Add_of_stored_pair [OF second abs2' m1]
  have same: "toml w2 = toml w1"
    and cs: "calls w2 = calls w1 @ [CallEnsure ?s, CallReadToml (configFile mgr)]"
    by simp_all
  from Add_preserves_distinct [OF d, of target newLocation] first
  have d1: "distinct (persisted_set mgr w1)"
    by simp
  from same have "persisted_set mgr w2 = persisted_set mgr w1"
    by (simp add: persisted_set_def)
  with d1 m1 have "count_list (persisted_set mgr w2) (lmUnexpand (LinkManager mgr) ?s) = 1"
    by (simp add: count_list_distinct)
  with r1 r2 same cs show ?thesis
    by simp
qed

text \<open>
  C5 (as the code has it). When \<open>Add\<close> succeeds twice in a row with the same inputs on
  a persisted set without duplicates, both calls return the symlink built by \<open>New\<close>
  (the expanded form; what is stored is its unexpanded form), the second call leaves
  the configuration as the first one left it, making only the calls to \<open>Ensure\<close> and to
  read the configuration, and afterwards the persisted set holds the unexpanded record
  exactly once. More generally, a persisted set without duplicates has none after \<open>Add\<close>
  and none after \<open>Remove\<close>.
\<close>

theorem Add_dedup_invariant:
  "(AsAbsolute (Fs w) (WorkingDir (config mgr)) target = Inr absTarget \<and>
    Add mgr target newLocation w = ((r1, None), w1) \<and>
    Add mgr target newLocation w1 = ((r2, None), w2) \<and>
    distinct (persisted_set mgr w) \<longrightarrow>
      r1 = Some (lmNew (LinkManager mgr) newLocation absTarget) \<and>
      r2 = Some (lmNew (LinkManager mgr) newLocation absTarget) \<and>
      toml w2 = toml w1 \<and>
      calls w2 = calls w1 @ [CallEnsure (lmNew (LinkManager mgr) newLocation absTarget),
                             CallReadToml (configFile mgr)] \<and>
      count_list (persisted_set mgr w2)
        (lmUnexpand (LinkManager mgr) (lmNew (LinkManager mgr) newLocation absTarget)) = 1) \<and>
   (distinct (persisted_set mgr w) \<longrightarrow>
      distinct (persisted_set mgr (snd (Add mgr target newLocation w))) \<and>
      distinct (persisted_set mgr (snd (Remove mgr link w))))"
  using Add_twice [of w mgr target absTarget newLocation r1 w1 r2 w2]
    Add_preserves_distinct [of mgr w target newLocation]
    Remove_preserves_distinct [of mgr w link]
  by blast

theorem Add_dedup_invariant_witness:
  "count_list
     (persisted_set test_mgr
       (snd (Add test_mgr ''/home/.dotfiles/.bashrc'' []
         (snd (Add test_mgr ''/home/.dotfiles/.bashrc'' [] (test_world fs_unlinked Absent None))))))
     bashrc_record = 1 \<and>
   toml (snd (Add test_mgr ''/home/.dotfiles/.bashrc'' []
         (snd (Add test_mgr ''/home/.dotfiles/.bashrc'' [] (test_world fs_unlinked Absent None))))) =
   toml (snd (Add test_mgr ''/home/.dotfiles/.bashrc'' [] (test_world fs_unlinked Absent None))) \<and>
   distinct (persisted_set test_mgr
     (snd (Add test_mgr ''/home/.dotfiles/.bashrc'' [] (test_world fs_unlinked Absent None)))) \<and>
   distinct (persisted_set test_mgr
     (snd (Remove test_mgr ''/home/.bashrc'' (test_world fs_unlinked Absent None))))"
proof -
  let ?w = "test_world fs_unlinked Absent None"
  let ?w1 = "snd (Add test_mgr ''/home/.dotfiles/.bashrc'' [] ?w)"
  let ?w2 = "snd (Add test_mgr ''/home/.dotfiles/.bashrc'' [] ?w1)"
  let ?s = "\<lparr>Target = ''/home/.dotfiles/.bashrc'', Link = ''/home/.bashrc''\<rparr>"
  have abs: "AsAbsolute (Fs ?w) (WorkingDir (config test_mgr)) ''/home/.dotfiles/.bashrc'' =
      Inr ''/home/.dotfiles/.bashrc''"
    by (simp add: model_simps test_simps)
  have "fst (Add test_mgr ''/home/.dotfiles/.bashrc'' [] ?w) = (Some ?s, None)"
    by (simp add: model_simps test_simps)
  then have run1: "Add test_mgr ''/home/.dotfiles/.bashrc'' [] ?w = ((Some ?s, None), ?w1)"
    by (simp add: prod_eq_iff)
  have "fst (Add test_mgr ''/home/.dotfiles/.bashrc'' [] ?w1) = (Some ?s, None)"
    by (simp add: model_simps test_simps)
  then have run2: "Add test_mgr ''/home/.dotfiles/.bashrc'' [] ?w1 = ((Some ?s, None), ?w2)"
    by (simp add: prod_eq_iff)
  have d: "distinct (persisted_set test_mgr ?w)"
    by (simp add: model_simps test_simps)
  have unex: "lmUnexpand (LinkManager test_mgr)
      (lmNew (LinkManager test_mgr) [] ''/home/.dotfiles/.bashrc'') = bashrc_record"
    by (simp add: model_simps test_simps)
  from Add_dedup_invariant [where w = ?w and mgr = test_mgr and target = "''/home/.dotfiles/.bashrc''"
      and absTarget = "''/home/.dotfiles/.bashrc''" and newLocation = "[]"
      and ?r1.0 = "Some ?s" and ?w1.0 = ?w1 and ?r2.0 = "Some ?s" and ?w2.0 = ?w2
      and link = "''/home/.bashrc''"] abs run1 run2 d
  show ?thesis
    unfolding unex by blast
qed

text \<open>
  The claim as worded fails: for a target and a link under the home directory, what
  \<open>Add\<close> returns, the first time and the second, is the expanded symlink, which differs
  from the unexpanded record in the persisted set.
\<close>

theorem Add_returns_expanded_counterexample:
  "fst (Add test_mgr ''/home/.dotfiles/.bashrc'' [] (test_world fs_unlinked Absent None)) =
     (Some \<lparr>Target = ''/home/.dotfiles/.bashrc'', Link = ''/home/.bashrc''\<rparr>, None) \<and>
   persisted_set test_mgr
     (snd (Add test_mgr ''/home/.dotfiles/.bashrc'' [] (test_world fs_unlinked Absent None))) =
     [\<lparr>Target = ''~/.dotfiles/.bashrc'', Link = ''~/.bashrc''\<rparr>] \<and>
   fst (Add test_mgr ''/home/.dotfiles/.bashrc'' []
          (snd (Add test_mgr ''/home/.dotfiles/.bashrc'' [] (test_world fs_unlinked Absent None)))) =
     (Some \<lparr>Target = ''/home/.dotfiles/.bashrc'', Link = ''/home/.bashrc''\<rparr>, None) \<and>
   \<lparr>Target = ''/home/.dotfiles/.bashrc'', Link = ''/home/.bashrc''\<rparr> \<noteq>
     \<lparr>Target = ''~/.dotfiles/.bashrc'', Link = ''~/.bashrc''\<rparr>"
  by (simp add: model_simps test_simps)

section \<open>Derivation of the missing path\<close>

text \<open>
  C9. Derivation by \<open>New\<close>. Given an absolute target that is the dotfiles root, a
  separator and a non-empty rest, and an empty link, the link becomes the home directory,
  a separator and that rest; given an empty target and an absolute link under the home
  directory, the target becomes that rest under the dotfiles root. Where the given path
  is not absolute or not under the respective root, the other field stays the empty
  string and a symlink is returned all the same, as for \<open>New("", ".")\<close>.
\<close>

theorem New_derivation:
  "(rel \<noteq> [] \<and> isAbs (Dotfiles c @ ''/'' @ rel) \<longrightarrow>
      linkManager_New c (Dotfiles c @ ''/'' @ rel) [] =
        \<lparr>Target = Dotfiles c @ ''/'' @ rel, Link = UserHome c @ ''/'' @ rel\<rparr>) \<and>
   (rel \<noteq> [] \<and> isAbs (UserHome c @ ''/'' @ rel) \<longrightarrow>
      linkManager_New c [] (UserHome c @ ''/'' @ rel) =
        \<lparr>Target = Dotfiles c @ ''/'' @ rel, Link = UserHome c @ ''/'' @ rel\<rparr>) \<and>
   (\<not> isAbs target \<or> \<not> prefix (Dotfiles c @ ''/'') target \<longrightarrow>
      linkManager_New c target [] = \<lparr>Target = target, Link = []\<rparr>) \<and>
   (\<not> isAbs link \<or> \<not> prefix (UserHome c @ ''/'') link \<longrightarrow>
      linkManager_New c [] link = \<lparr>Target = [], Link = link\<rparr>) \<and>
   linkManager_New c [] ''.'' = \<lparr>Target = [], Link = ''.''\<rparr>"
  by (auto simp: linkManager_New_def relativeTo_def reroot_def isAbs_def)

theorem New_derivation_witness:
  "linkManager_New test_conf ''/home/.dotfiles/link'' [] =
     \<lparr>Target = ''/home/.dotfiles/link'', Link = ''/home/link''\<rparr> \<and>
   linkManager_New test_conf [] ''/home/link'' =
     \<lparr>Target = ''/home/.dotfiles/link'', Link = ''/home/link''\<rparr> \<and>
   linkManager_New test_conf ''/link'' [] = \<lparr>Target = ''/link'', Link = []\<rparr> \<and>
   linkManager_New test_conf [] ''.'' = \<lparr>Target = [], Link = ''.''\<rparr>"
  using New_derivation [of "''link''" test_conf "''/link''" "''.''"]
  by (simp add: test_conf_def isAbs_def)

end
